theory Spec2Isabelle
  imports Main
begin

section \<open>The generation client: services/geminiService.ts\<close>

text \<open>
  A shallow embedding of the AI photo rotator. JavaScript strings are lists of code
  units; the model covers code units below 256, one \<^typ>\<open>char\<close> each. The numbers that the
  code computes with (the retry budget, a count, and the delay in milliseconds) are
  integers: the defaults and every value reached from them are exact in a double.
  Diagnostic logging (\<^verbatim>\<open>console.warn\<close>, \<^verbatim>\<open>console.error\<close>) has no effect on any result and
  is left out.
\<close>

subsection \<open>Thrown values\<close>

text \<open>
  What a rejected promise carries. The code reads \<^verbatim>\<open>error?.status\<close> and
  \<^verbatim>\<open>error?.message\<close>, and tests \<^verbatim>\<open>err instanceof Error\<close>; a property that is absent (or
  a thrown \<^verbatim>\<open>undefined\<close>) is \<^const>\<open>None\<close>. A message, when there is one, is a string.
\<close>

record js_error =
  status :: "int option"
  message :: "string option"
  instanceofError :: bool

definition new_Error :: "string \<Rightarrow> js_error" where
  "new_Error msg = \<lparr>status = None, message = Some msg, instanceofError = True\<rparr>"

text \<open>\<^verbatim>\<open>s.includes(pat)\<close>: \<open>pat\<close> occurs in \<open>s\<close> as a contiguous substring.\<close>

fun str_includes :: "string \<Rightarrow> string \<Rightarrow> bool" where
  "str_includes [] pat = (pat = [])"
| "str_includes (c # cs) pat = (take (length pat) (c # cs) = pat \<or> str_includes cs pat)"

subsection \<open>The world: invocations and timers\<close>

text \<open>
  An asynchronous operation \<^verbatim>\<open>fn: () => Promise<T>\<close> is given by the outcome of each of
  its invocations: \<open>fn k\<close> is what the invocation made after \<open>k\<close> earlier ones settles to,
  \<open>Inl\<close> a rejection and \<open>Inr\<close> a value; every invocation settles. The world counts the
  invocations and records, in order, each invocation and each timer that was awaited.
\<close>

datatype event = Invoke | Wait int

record io =
  calls :: nat
  trace :: "event list"

definition invoke :: "(nat \<Rightarrow> js_error + 'a) \<Rightarrow> io \<Rightarrow> (js_error + 'a) \<times> io" where
  "invoke fn w = (fn (calls w), w\<lparr>calls := Suc (calls w), trace := trace w @ [Invoke]\<rparr>)"

text \<open>\<^verbatim>\<open>await new Promise(r => setTimeout(r, delay))\<close>\<close>

definition setTimeout :: "int \<Rightarrow> io \<Rightarrow> io" where
  "setTimeout delay w = w\<lparr>trace := trace w @ [Wait delay]\<rparr>"

subsection \<open>retryWithBackoff\<close>

definition isOverloaded :: "js_error \<Rightarrow> bool" where
  "isOverloaded error =
     (status error = Some 503 \<or>
      (case message error of None \<Rightarrow> False | Some m \<Rightarrow> str_includes m ''overloaded'') \<or>
      (case message error of None \<Rightarrow> False | Some m \<Rightarrow> str_includes m ''503''))"

function retryWithBackoff ::
  "(nat \<Rightarrow> js_error + 'a) \<Rightarrow> int \<Rightarrow> int \<Rightarrow> io \<Rightarrow> (js_error + 'a) \<times> io" where
  "retryWithBackoff fn retries delay w =
     (case invoke fn w of
        (Inr v, w1) \<Rightarrow> (Inr v, w1)
      | (Inl error, w1) \<Rightarrow>
          if retries > 0 \<and> isOverloaded error
          then retryWithBackoff fn (retries - 1) (delay * 2) (setTimeout delay w1)
          else (Inl error, w1))"
  by pat_completeness auto
termination
  by (relation "measure (\<lambda>(fn, retries, delay, w). nat retries)") auto

declare retryWithBackoff.simps [simp del]

text \<open>The default parameters: \<^verbatim>\<open>retries = 3, delay = 2000\<close>.\<close>

definition default_retries :: int where
  "default_retries = 3"

definition default_delay :: int where
  "default_delay = 2000"

subsection \<open>String operations of the runtime\<close>

text \<open>
  The regular expression flag \<open>i\<close> compares canonical forms; among code units below 256
  only the two cases of an ASCII letter agree with an ASCII letter.
\<close>

definition toLowerCase_char :: "char \<Rightarrow> char" where
  "toLowerCase_char c =
     (if (65::nat) \<le> of_char c \<and> of_char c \<le> (90::nat) then char_of (of_char c + (32::nat)) else c)"

text \<open>
  \<^verbatim>\<open>s.replace(/pat/g, '')\<close> for a pattern that is a literal: matches are found left to
  right and do not overlap. \<open>eq\<close> compares a code unit of the pattern with one of the text.
\<close>

function removeAll :: "(char \<Rightarrow> char \<Rightarrow> bool) \<Rightarrow> string \<Rightarrow> string \<Rightarrow> string" where
  "removeAll eq pat [] = []"
| "removeAll eq pat (c # cs) =
     (if pat \<noteq> [] \<and> length pat \<le> length (c # cs) \<and> list_all2 eq pat (take (length pat) (c # cs))
      then removeAll eq pat (drop (length pat) (c # cs))
      else c # removeAll eq pat cs)"
  by pat_completeness auto
termination
  by (relation "measure (\<lambda>(eq, pat, s). length s)") auto

text \<open>White space and line terminators of ECMAScript, among code units below 256.\<close>

definition isWhiteSpace :: "char \<Rightarrow> bool" where
  "isWhiteSpace c = (of_char c \<in> {9, 10, 11, 12, 13, 32, 160 :: nat})"

definition trim :: "string \<Rightarrow> string" where
  "trim s = rev (dropWhile isWhiteSpace (rev (dropWhile isWhiteSpace s)))"

definition indexOf :: "string \<Rightarrow> char \<Rightarrow> int" where
  "indexOf s c = (if c \<in> set s then int (length (takeWhile (\<lambda>x. x \<noteq> c) s)) else - 1)"

definition lastIndexOf :: "string \<Rightarrow> char \<Rightarrow> int" where
  "lastIndexOf s c =
     (if c \<in> set s then int (length s) - 1 - int (length (takeWhile (\<lambda>x. x \<noteq> c) (rev s))) else - 1)"

text \<open>\<^verbatim>\<open>s.substring(a, b)\<close>: both indices are clamped to the string and swapped when \<open>a > b\<close>.\<close>

definition substring :: "string \<Rightarrow> int \<Rightarrow> int \<Rightarrow> string" where
  "substring s a b =
     (let n = int (length s);
          a' = max 0 (min a n);
          b' = max 0 (min b n)
      in take (nat (max a' b' - min a' b')) (drop (nat (min a' b')) s))"

subsection \<open>JSON values and JSON.parse\<close>

text \<open>
  The values that \<^verbatim>\<open>JSON.parse\<close> gives, and a parser for the grammar of ECMA-404. The
  services take the parser as a parameter, so what is proved of them for every text holds
  for the runtime's own \<^verbatim>\<open>JSON.parse\<close>; the parser below serves to run them on given texts.
\<close>

datatype json =
  JNull
| JBool bool
| JNumber string
| JString string
| JArray "json list"
| JObject "(string \<times> json) list"

definition isJsonSpace :: "char \<Rightarrow> bool" where
  "isJsonSpace c = (of_char c \<in> {9, 10, 13, 32 :: nat})"

definition skipSpace :: "string \<Rightarrow> string" where
  "skipSpace = dropWhile isJsonSpace"

definition isDigit :: "char \<Rightarrow> bool" where
  "isDigit c = ((48::nat) \<le> of_char c \<and> of_char c \<le> (57::nat))"

definition hexValue :: "char \<Rightarrow> nat option" where
  "hexValue c =
     (let n = of_char c :: nat in
      if 48 \<le> n \<and> n \<le> 57 then Some (n - 48)
      else if 65 \<le> n \<and> n \<le> 70 then Some (n - 55)
      else if 97 \<le> n \<and> n \<le> 102 then Some (n - 87)
      else None)"

definition unescape :: "char \<Rightarrow> char option" where
  "unescape c =
     (if c = CHR 0x22 then Some (CHR 0x22)
      else if c = CHR 0x5C then Some (CHR 0x5C)
      else if c = CHR ''/'' then Some (CHR ''/'')
      else if c = CHR ''b'' then Some (CHR 0x08)
      else if c = CHR ''f'' then Some (CHR 0x0C)
      else if c = CHR ''n'' then Some (CHR 0x0A)
      else if c = CHR ''r'' then Some (CHR 0x0D)
      else if c = CHR ''t'' then Some (CHR 0x09)
      else None)"

text \<open>
  The characters of a string literal after its opening quote, up to the closing quote.
  An escape \<^verbatim>\<open>\uXXXX\<close> of a code unit of 256 or more is outside the strings of this model
  and is refused.
\<close>

fun parseChars :: "string \<Rightarrow> string \<Rightarrow> (string \<times> string) option" where
  "parseChars [] acc = None"
| "parseChars (c # cs) acc =
     (if c = CHR 0x22 then Some (rev acc, cs)
      else if c = CHR 0x5C then
        (case cs of
           [] \<Rightarrow> None
         | e # cs1 \<Rightarrow>
             if e = CHR ''u'' then
               (case cs1 of
                  h1 # h2 # h3 # h4 # cs2 \<Rightarrow>
                    (case (hexValue h1, hexValue h2, hexValue h3, hexValue h4) of
                       (Some d1, Some d2, Some d3, Some d4) \<Rightarrow>
                         if d1 = 0 \<and> d2 = 0 then parseChars cs2 (char_of (16 * d3 + d4) # acc)
                         else None
                     | _ \<Rightarrow> None)
                | _ \<Rightarrow> None)
             else (case unescape e of None \<Rightarrow> None | Some x \<Rightarrow> parseChars cs1 (x # acc)))
      else if (of_char c :: nat) < 32 then None
      else parseChars cs (c # acc))"

text \<open>A number literal: its text is kept, the code never reads a number.\<close>

definition parseNumber :: "string \<Rightarrow> (string \<times> string) option" where
  "parseNumber cs =
     (let (sign, r1) = (if take 1 cs = ''-'' then (''-'', drop 1 cs) else ('''', cs));
          intPart = (if take 1 r1 = ''0'' then ''0'' else takeWhile isDigit r1);
          r2 = drop (length intPart) r1;
          fracDigits = (if take 1 r2 = ''.'' then takeWhile isDigit (drop 1 r2) else '''');
          fracPart = (if take 1 r2 = ''.'' then ''.'' @ fracDigits else '''');
          r3 = drop (length fracPart) r2;
          hasExp = (take 1 r3 = ''e'' \<or> take 1 r3 = ''E'');
          r4 = drop 1 r3;
          expSign = (if take 1 r4 = ''+'' \<or> take 1 r4 = ''-'' then take 1 r4 else '''');
          expDigits = takeWhile isDigit (drop (length expSign) r4);
          expPart = (if hasExp then take 1 r3 @ expSign @ expDigits else '''')
      in if intPart = '''' then None
         else if take 1 r2 = ''.'' \<and> fracDigits = '''' then None
         else if hasExp \<and> expDigits = '''' then None
         else Some (sign @ intPart @ fracPart @ expPart, drop (length expPart) r3))"

text \<open>
  The recursive descent over values, array elements and object members. Every call
  takes one unit from its first argument and fails when none is left; \<open>parseJSON\<close>
  starts with two units for every code unit of the text, and two more.
\<close>

fun parseValue :: "nat \<Rightarrow> string \<Rightarrow> (json \<times> string) option"
  and parseElements :: "nat \<Rightarrow> string \<Rightarrow> (json list \<times> string) option"
  and parseMembers :: "nat \<Rightarrow> string \<Rightarrow> ((string \<times> json) list \<times> string) option" where
  "parseValue 0 cs = None"
| "parseValue (Suc n) cs =
     (case skipSpace cs of
        [] \<Rightarrow> None
      | c # r \<Rightarrow>
          if c = CHR ''{'' then
            (if take 1 (skipSpace r) = ''}'' then Some (JObject [], drop 1 (skipSpace r))
             else (case parseMembers n r of None \<Rightarrow> None | Some (ms, r1) \<Rightarrow> Some (JObject ms, r1)))
          else if c = CHR ''['' then
            (if take 1 (skipSpace r) = '']'' then Some (JArray [], drop 1 (skipSpace r))
             else (case parseElements n r of None \<Rightarrow> None | Some (vs, r1) \<Rightarrow> Some (JArray vs, r1)))
          else if c = CHR 0x22 then
            (case parseChars r [] of None \<Rightarrow> None | Some (s, r1) \<Rightarrow> Some (JString s, r1))
          else if take 4 (c # r) = ''true'' then Some (JBool True, drop 4 (c # r))
          else if take 5 (c # r) = ''false'' then Some (JBool False, drop 5 (c # r))
          else if take 4 (c # r) = ''null'' then Some (JNull, drop 4 (c # r))
          else (case parseNumber (c # r) of None \<Rightarrow> None | Some (lit, r1) \<Rightarrow> Some (JNumber lit, r1)))"
| "parseElements 0 cs = None"
| "parseElements (Suc n) cs =
     (case parseValue n cs of
        None \<Rightarrow> None
      | Some (v, r) \<Rightarrow>
          if take 1 (skipSpace r) = '','' then
            (case parseElements n (drop 1 (skipSpace r)) of
               None \<Rightarrow> None
             | Some (vs, r1) \<Rightarrow> Some (v # vs, r1))
          else if take 1 (skipSpace r) = '']'' then Some ([v], drop 1 (skipSpace r))
          else None)"
| "parseMembers 0 cs = None"
| "parseMembers (Suc n) cs =
     (if take 1 (skipSpace cs) = [CHR 0x22] then
        (case parseChars (drop 1 (skipSpace cs)) [] of
           None \<Rightarrow> None
         | Some (k, r) \<Rightarrow>
             if take 1 (skipSpace r) = '':'' then
               (case parseValue n (drop 1 (skipSpace r)) of
                  None \<Rightarrow> None
                | Some (v, r1) \<Rightarrow>
                    if take 1 (skipSpace r1) = '','' then
                      (case parseMembers n (drop 1 (skipSpace r1)) of
                         None \<Rightarrow> None
                       | Some (ms, r2) \<Rightarrow> Some ((k, v) # ms, r2))
                    else if take 1 (skipSpace r1) = ''}'' then Some ([(k, v)], drop 1 (skipSpace r1))
                    else None)
             else None)
      else None)"

definition parseJSON :: "string \<Rightarrow> json option" where
  "parseJSON s =
     (case parseValue (2 * length s + 2) s of
        None \<Rightarrow> None
      | Some (v, r) \<Rightarrow> if skipSpace r = [] then Some v else None)"

subsection \<open>getRotationPrompts: reading the model's text\<close>

text \<open>
  \<^verbatim>\<open>jsonText.replace(/```json/gi, '').replace(/```/g, '').trim()\<close>, then the substring from
  the first \<open>{\<close> to the last \<open>}\<close> when both exist in that order.
\<close>

definition stripFences :: "string \<Rightarrow> string" where
  "stripFences jsonText =
     trim (removeAll (=) ''```'' (removeAll (\<lambda>p c. p = toLowerCase_char c) ''```json'' jsonText))"

definition extractObject :: "string \<Rightarrow> string" where
  "extractObject jsonText =
     (let firstBrace = indexOf jsonText (CHR ''{'');
          lastBrace = lastIndexOf jsonText (CHR ''}'')
      in if firstBrace \<noteq> - 1 \<and> lastBrace \<noteq> - 1 \<and> lastBrace \<ge> firstBrace
         then substring jsonText firstBrace (lastBrace + 1)
         else jsonText)"

text \<open>
  \<^verbatim>\<open>result.prompts\<close>: the property of a parsed object (the last of duplicate keys), and
  \<^verbatim>\<open>undefined\<close> on every other value; \<^verbatim>\<open>result && ...\<close> keeps \<^verbatim>\<open>null\<close> away from it.
\<close>

fun get_prompts :: "json \<Rightarrow> json option" where
  "get_prompts (JObject members) = map_of (rev members) ''prompts''"
| "get_prompts _ = None"

text \<open>\<^verbatim>\<open>typeof p === 'string' && p.length > 10\<close>\<close>

fun isValidPrompt :: "json \<Rightarrow> bool" where
  "isValidPrompt (JString p) = (length p > 10)"
| "isValidPrompt _ = False"

text \<open>\<^verbatim>\<open>typeof p === 'string'\<close>\<close>

fun isString :: "json \<Rightarrow> bool" where
  "isString (JString p) = True"
| "isString _ = False"

text \<open>An array of which every element is a string, as the \<^verbatim>\<open>string[]\<close> the function returns.\<close>

fun strings :: "json list \<Rightarrow> string list" where
  "strings [] = []"
| "strings (JString p # ps) = p # strings ps"
| "strings (_ # ps) = strings ps"

text \<open>
  The checks on the parsed value, lines 136 to 148: \<open>Some\<close> is a \<^verbatim>\<open>return\<close>, \<open>None\<close> means
  that control leaves the \<^verbatim>\<open>try\<close> block without one.
\<close>

definition fallbackPrompts :: "json \<Rightarrow> string list option" where
  "fallbackPrompts result =
     (case result of
        JArray xs \<Rightarrow>
          if length xs \<ge> 3 then Some (strings (filter isString (take 3 xs))) else None
      | _ \<Rightarrow> None)"

definition checkPrompts :: "json \<Rightarrow> string list option" where
  "checkPrompts result =
     (case get_prompts result of
        Some (JArray ps) \<Rightarrow>
          (let validPrompts = filter isValidPrompt ps
           in if length validPrompts \<ge> 3 then Some (strings (take 3 validPrompts))
              else fallbackPrompts result)
      | _ \<Rightarrow> fallbackPrompts result)"

definition invalidInstructions :: js_error where
  "invalidInstructions =
     new_Error ''The AI failed to return valid rotation instructions. Please try a different image.''"

definition malformedResponse :: js_error where
  "malformedResponse =
     new_Error ''Could not get valid rotation prompts from the AI. The response was malformed.''"

text \<open>
  Lines 120 to 131: \<^verbatim>\<open>response.text || ""\<close>, without the fences, cut to the braces.
\<close>

definition jsonTextOf :: "string option \<Rightarrow> string" where
  "jsonTextOf response_text =
     (let jsonText = (case response_text of None \<Rightarrow> '''' | Some t \<Rightarrow> t);
          jsonText = stripFences jsonText
      in extractObject jsonText)"

text \<open>
  The parsing stage of services/geminiService.ts, lines 119 to 157. \<open>json_parse\<close> is the
  runtime's \<^verbatim>\<open>JSON.parse\<close>, \<open>None\<close> when it throws; \<open>response_text\<close> is \<^verbatim>\<open>response.text\<close>,
  \<open>None\<close> when it is \<^verbatim>\<open>undefined\<close>.
\<close>

definition parseRotationPrompts ::
  "(string \<Rightarrow> json option) \<Rightarrow> string option \<Rightarrow> js_error + string list" where
  "parseRotationPrompts json_parse response_text =
     (case json_parse (jsonTextOf response_text) of
        None \<Rightarrow> Inl invalidInstructions
      | Some result \<Rightarrow>
          (case checkPrompts result of
             Some prompts \<Rightarrow> Inr prompts
           | None \<Rightarrow> Inl malformedResponse))"

text \<open>
  The same stage in unnamed/part_001, lines 95 to 132: its \<^verbatim>\<open>catch\<close> block logs and does not
  throw, so control reaches the throw after the \<^verbatim>\<open>try\<close> statement.
\<close>

definition parseRotationPrompts_part001 ::
  "(string \<Rightarrow> json option) \<Rightarrow> string option \<Rightarrow> js_error + string list" where
  "parseRotationPrompts_part001 json_parse response_text =
     (case json_parse (jsonTextOf response_text) of
        None \<Rightarrow> Inl malformedResponse
      | Some result \<Rightarrow>
          (case checkPrompts result of
             Some prompts \<Rightarrow> Inr prompts
           | None \<Rightarrow> Inl malformedResponse))"


subsection \<open>Requests, responses and the environment\<close>

text \<open>
  The shapes of the SDK that the code builds and reads. A property that may be absent is
  an option; \<open>text'\<close> is the property \<^verbatim>\<open>text\<close>.
\<close>

datatype ModelMode = standard | pro

record Blob =
  data :: "string option"
  mimeType :: "string option"

record Part =
  inlineData :: "Blob option"
  text' :: "string option"

record Content =
  parts :: "Part list option"

record Candidate =
  content :: "Content option"

record GenerateContentResponse =
  candidates :: "Candidate list option"
  text' :: "string option"

datatype Schema = STRING | ARRAY Schema | OBJECT "(string \<times> Schema) list" "string list"

record GenerateContentConfig =
  responseMimeType :: "string option"
  responseSchema :: "Schema option"
  imageConfig_aspectRatio :: "string option"

record GenerateContentParameters =
  model :: string
  contents :: Content
  config :: GenerateContentConfig

text \<open>
  What the module reads from outside: \<^verbatim>\<open>process.env.API_KEY\<close>; the hosted model, as the
  outcome of the \<open>k\<close>-th call of \<^verbatim>\<open>ai.models.generateContent\<close> on a request; the runtime's
  \<^verbatim>\<open>JSON.parse\<close>, \<open>None\<close> when it throws. The two instruction texts that
  \<^verbatim>\<open>getPovPrompt\<close> returns are fixed template literals that only travel to the model; they
  are a parameter here.
\<close>

record env =
  API_KEY :: "string option"
  generateContent :: "nat \<Rightarrow> GenerateContentParameters \<Rightarrow> js_error + GenerateContentResponse"
  JSON_parse :: "string \<Rightarrow> json option"
  getPovPrompt :: "bool \<Rightarrow> string"

text \<open>\<^verbatim>\<open>getAI\<close>: it throws when the key is missing or empty.\<close>

definition getAI :: "env \<Rightarrow> js_error option" where
  "getAI e =
     (if API_KEY e = None \<or> API_KEY e = Some ''''
      then Some (new_Error ''API_KEY environment variable is not set'')
      else None)"

subsection \<open>getRotationPrompts\<close>

definition promptsRequest :: "env \<Rightarrow> string \<Rightarrow> string \<Rightarrow> bool \<Rightarrow> ModelMode \<Rightarrow> GenerateContentParameters" where
  "promptsRequest e base64Image mimeType' isObjectRotationOnly mode =
     (let prompt = getPovPrompt e isObjectRotationOnly;
          modelName = (if mode = pro then ''gemini-3-pro-preview'' else ''gemini-2.5-flash'')
      in \<lparr>model = modelName,
          contents = \<lparr>parts = Some
            [\<lparr>inlineData = Some \<lparr>data = Some base64Image, mimeType = Some mimeType'\<rparr>, text' = None\<rparr>,
             \<lparr>inlineData = None, text' = Some prompt\<rparr>]\<rparr>,
          config = \<lparr>responseMimeType = Some ''application/json'',
                    responseSchema = Some (OBJECT [(''prompts'', ARRAY STRING)] [''prompts'']),
                    imageConfig_aspectRatio = None\<rparr>\<rparr>)"

definition getRotationPrompts ::
  "env \<Rightarrow> string \<Rightarrow> string \<Rightarrow> bool \<Rightarrow> ModelMode \<Rightarrow> io \<Rightarrow> (js_error + string list) \<times> io" where
  "getRotationPrompts e base64Image mimeType' isObjectRotationOnly mode w =
     (case getAI e of
        Some err \<Rightarrow> (Inl err, w)
      | None \<Rightarrow>
          (case retryWithBackoff
                  (\<lambda>k. generateContent e k (promptsRequest e base64Image mimeType' isObjectRotationOnly mode))
                  default_retries default_delay w of
             (Inl err, w1) \<Rightarrow> (Inl err, w1)
           | (Inr response, w1) \<Rightarrow>
               (parseRotationPrompts (JSON_parse e) (GenerateContentResponse.text' response), w1)))"

subsection \<open>generateRotatedImage\<close>

text \<open>A default parameter takes its default when the argument is \<^verbatim>\<open>undefined\<close>, here \<open>None\<close>.\<close>

definition finalPrompt :: "string \<Rightarrow> string option \<Rightarrow> string" where
  "finalPrompt prompt style =
     (let style = (case style of None \<Rightarrow> ''Realistic'' | Some s \<Rightarrow> s)
      in if style \<noteq> ''Realistic''
         then prompt @ ''\<newline>\<newline>IMPORTANT: Render this image in the style of: '' @ style @
              ''. Maintain the subject's identity but apply this art style strongly.''
         else prompt)"

definition imageRequest ::
  "string \<Rightarrow> string \<Rightarrow> string \<Rightarrow> ModelMode \<Rightarrow> string option \<Rightarrow> string option \<Rightarrow> GenerateContentParameters" where
  "imageRequest base64Image mimeType' prompt mode style aspectRatio =
     (let aspectRatio = (case aspectRatio of None \<Rightarrow> ''1:1'' | Some r \<Rightarrow> r);
          modelName = (if mode = pro then ''gemini-3-pro-image-preview'' else ''gemini-2.5-flash-image'')
      in \<lparr>model = modelName,
          contents = \<lparr>parts = Some
            [\<lparr>inlineData = Some \<lparr>data = Some base64Image, mimeType = Some mimeType'\<rparr>, text' = None\<rparr>,
             \<lparr>inlineData = None, text' = Some (finalPrompt prompt style)\<rparr>]\<rparr>,
          config = \<lparr>responseMimeType = None, responseSchema = None,
                    imageConfig_aspectRatio = Some aspectRatio\<rparr>\<rparr>)"

text \<open>\<^verbatim>\<open>response.candidates?.[0]?.content?.parts\<close>, \<open>None\<close> when the chain gives \<^verbatim>\<open>undefined\<close>.\<close>

definition firstCandidateParts :: "GenerateContentResponse \<Rightarrow> Part list option" where
  "firstCandidateParts response =
     (case candidates response of
        None \<Rightarrow> None
      | Some [] \<Rightarrow> None
      | Some (c # _) \<Rightarrow> (case content c of None \<Rightarrow> None | Some ct \<Rightarrow> parts ct))"

text \<open>A property that is \<^verbatim>\<open>undefined\<close> prints as that word in a template literal.\<close>

definition template :: "string option \<Rightarrow> string" where
  "template v = (case v of None \<Rightarrow> ''undefined'' | Some s \<Rightarrow> s)"

definition noImage :: js_error where
  "noImage = new_Error ''The AI did not return an image. It might not be able to process this request.''"

text \<open>Lines 197 to 204: the first part with inline data, as a data URI.\<close>

definition imageOfResponse :: "GenerateContentResponse \<Rightarrow> js_error + string" where
  "imageOfResponse response =
     (let imagePart = (case firstCandidateParts response of
                         None \<Rightarrow> None
                       | Some ps \<Rightarrow> find (\<lambda>part. inlineData part \<noteq> None) ps)
      in case imagePart of
           None \<Rightarrow> Inl noImage
         | Some part \<Rightarrow>
             (case inlineData part of
                None \<Rightarrow> Inl noImage
              | Some b \<Rightarrow> Inr (''data:'' @ template (mimeType b) @ '';base64,'' @ template (data b))))"

definition generateRotatedImage ::
  "env \<Rightarrow> string \<Rightarrow> string \<Rightarrow> string \<Rightarrow> ModelMode \<Rightarrow> string option \<Rightarrow> string option \<Rightarrow> io
     \<Rightarrow> (js_error + string) \<times> io" where
  "generateRotatedImage e base64Image mimeType' prompt mode style aspectRatio w =
     (case getAI e of
        Some err \<Rightarrow> (Inl err, w)
      | None \<Rightarrow>
          (case retryWithBackoff
                  (\<lambda>k. generateContent e k (imageRequest base64Image mimeType' prompt mode style aspectRatio))
                  default_retries default_delay w of
             (Inl err, w1) \<Rightarrow> (Inl err, w1)
           | (Inr response, w1) \<Rightarrow> (imageOfResponse response, w1)))"

section \<open>The page component: unnamed/part_000\<close>

text \<open>
  The state that \<^verbatim>\<open>useState\<close> holds; a setter is an update of its field. The functions
  below read the values of the render in which they were created, and none of them
  changes a value it reads.
\<close>

record GeneratedImage =
  src :: string
  prompt :: string

record app_state =
  modelMode :: ModelMode
  hasApiKey :: bool
  checkingKey :: bool
  originalImage :: "string option"
  generatedImages :: "GeneratedImage list"
  isObjectRotationOnly :: bool
  selectedStyle :: string
  selectedRatio :: string
  lightboxIndex :: "nat option"
  isLoading :: bool
  status :: string
  error :: string


text \<open>The decimal digits of a number, for \<^verbatim>\<open>${i + 1}\<close>.\<close>

fun showNat :: "nat \<Rightarrow> string" where
  "showNat n =
     (if n < 10 then [char_of (48 + n)] else showNat (n div 10) @ [char_of (48 + n mod 10)])"

declare showNat.simps [simp del]

text \<open>\<^verbatim>\<open>`Generating view ${i + 1} of 3...`\<close>\<close>

definition viewStatus :: "nat \<Rightarrow> string" where
  "viewStatus i = ''Generating view '' @ showNat (i + 1) @ '' of 3...''"

text \<open>
  The loop of lines 116 to 129, from index \<open>i\<close> with \<open>newImages\<close> as built so far. The
  result is the value thrown, if any, with the state and the world.
\<close>

function generateViews ::
  "env \<Rightarrow> string \<Rightarrow> string \<Rightarrow> string list \<Rightarrow> nat \<Rightarrow> GeneratedImage list \<Rightarrow> app_state \<Rightarrow> io
     \<Rightarrow> js_error option \<times> app_state \<times> io" where
  "generateViews e base64Image mimeType' prompts i newImages st w =
     (if i < 3 then
        (let st1 = st\<lparr>status := viewStatus i\<rparr>
         in case generateRotatedImage e base64Image mimeType' (prompts ! i) (modelMode st)
                   (Some (selectedStyle st)) (Some (selectedRatio st)) w of
              (Inl err, w1) \<Rightarrow> (Some err, st1, w1)
            | (Inr generatedImage, w1) \<Rightarrow>
                (let newImages1 = newImages @ [\<lparr>src = generatedImage, prompt = prompts ! i\<rparr>]
                 in generateViews e base64Image mimeType' prompts (i + 1) newImages1
                      (st1\<lparr>generatedImages := newImages1\<rparr>) w1))
      else (None, st, w))"
  by pat_completeness auto
termination
  by (relation "measure (\<lambda>(e, base64Image, mimeType', prompts, i, newImages, st, w). 3 - i)") auto

declare generateViews.simps [simp del]

text \<open>\<^verbatim>\<open>err.message\<close> of an \<^verbatim>\<open>Error\<close>: the prototype's empty message when it has none of its own.\<close>

definition messageOf :: "js_error \<Rightarrow> string" where
  "messageOf err = (case message err of None \<Rightarrow> '''' | Some m \<Rightarrow> m)"

text \<open>The \<^verbatim>\<open>catch\<close> block of \<^verbatim>\<open>processImage\<close>, lines 131 to 143.\<close>

definition catchError :: "js_error \<Rightarrow> app_state \<Rightarrow> app_state" where
  "catchError err st =
     (let st1 =
        (if instanceofError err \<and>
            (str_includes (messageOf err) ''RESOURCE_EXHAUSTED'' \<or> str_includes (messageOf err) ''429'')
         then st\<lparr>error := ''Quota exhausted. The free tier may have been used up.''\<rparr>
         else if instanceofError err \<and>
            (str_includes (messageOf err) ''503'' \<or> str_includes (messageOf err) ''overloaded'')
         then st\<lparr>error := ''The AI model is currently overloaded. Please try again shortly.''\<rparr>
         else if instanceofError err \<and> str_includes (messageOf err) ''Requested entity was not found''
         then (let st2 = st\<lparr>error := ''API Key Error. Please re-select your key.''\<rparr>
               in if modelMode st = pro then st2\<lparr>hasApiKey := False\<rparr> else st2)
         else st\<lparr>error := (if instanceofError err then messageOf err else ''Processing failed.'')\<rparr>)
      in st1\<lparr>status := ''Failed''\<rparr>)"

definition processImage :: "env \<Rightarrow> string \<Rightarrow> string \<Rightarrow> app_state \<Rightarrow> io \<Rightarrow> app_state \<times> io" where
  "processImage e base64Image mimeType' st w =
     (let st1 = st\<lparr>error := ''''\<rparr>;
          st2 = st1\<lparr>status := ''Analyzing scene geometry...''\<rparr>;
          (thrown, st3, w3) =
            (case getRotationPrompts e base64Image mimeType' (isObjectRotationOnly st) (modelMode st) w of
               (Inl err, w1) \<Rightarrow> (Some err, st2, w1)
             | (Inr prompts, w1) \<Rightarrow>
                 if length prompts < 3
                 then (Some (new_Error ''Could not determine rotation angles. Please try another image.''),
                       st2, w1)
                 else (case generateViews e base64Image mimeType' prompts 0 [] st2 w1 of
                         (Some err, st', w') \<Rightarrow> (Some err, st', w')
                       | (None, st', w') \<Rightarrow> (None, st'\<lparr>status := ''Complete''\<rparr>, w')));
          st4 = (case thrown of None \<Rightarrow> st3 | Some err \<Rightarrow> catchError err st3)
      in (st4\<lparr>isLoading := False\<rparr>, w3))"

section \<open>Concrete inputs\<close>

text \<open>
  An environment whose model settles its \<open>k\<close>-th call to the \<open>k\<close>-th element of a list,
  with the JSON parser above for \<^verbatim>\<open>JSON.parse\<close>; and the two kinds of response.
\<close>

definition answering :: "(js_error + GenerateContentResponse) list \<Rightarrow> env" where
  "answering rs =
     \<lparr>API_KEY = Some ''key'',
      generateContent = (\<lambda>k request. if k < length rs then rs ! k else Inl (new_Error ''offline'')),
      JSON_parse = parseJSON,
      getPovPrompt = (\<lambda>isObjectRotationOnly. if isObjectRotationOnly then ''object'' else ''scene'')\<rparr>"

definition textResponse :: "string \<Rightarrow> GenerateContentResponse" where
  "textResponse t = \<lparr>candidates = None, text' = Some t\<rparr>"

definition imageResponse :: "string \<Rightarrow> string \<Rightarrow> GenerateContentResponse" where
  "imageResponse mt payload =
     \<lparr>candidates = Some [\<lparr>content = Some \<lparr>parts = Some
        [\<lparr>inlineData = None, text' = Some ''Here is the view.''\<rparr>,
         \<lparr>inlineData = Some \<lparr>data = Some payload, mimeType = Some mt\<rparr>, text' = None\<rparr>]\<rparr>\<rparr>],
      text' = None\<rparr>"

text \<open>
  An environment whose model answers one request only, and rejects every other one.
\<close>

definition expecting :: "GenerateContentParameters \<Rightarrow> GenerateContentResponse \<Rightarrow> env" where
  "expecting request response =
     \<lparr>API_KEY = Some ''key'',
      generateContent = (\<lambda>k r. if r = request then Inr response else Inl (new_Error ''another request'')),
      JSON_parse = parseJSON,
      getPovPrompt = (\<lambda>isObjectRotationOnly. if isObjectRotationOnly then ''object'' else ''scene'')\<rparr>"

definition idle :: app_state where
  "idle =
     \<lparr>modelMode = standard, hasApiKey = True, checkingKey = False, originalImage = None,
      generatedImages = [], isObjectRotationOnly = False, selectedStyle = ''Realistic'',
      selectedRatio = ''1:1'', lightboxIndex = None, isLoading = False, status = '''', error = ''''\<rparr>"

text \<open>
  A run in which the model answers the prompt request, is overloaded once during the
  second view and then delivers; a run that ends in an exhausted quota at the second
  view; and the state of the page when a file has been read.
\<close>

definition promptsText :: string where
  "promptsText =
     ''```json\<newline>{\"prompts\": [\"front view of it\", \"side view of it\", \"top view of it!\"]}\<newline>```''"


definition failing_run :: "(js_error + GenerateContentResponse) list" where
  "failing_run =
     [Inr (textResponse promptsText),
      Inr (imageResponse ''image/png'' ''AAA1''),
      Inl (new_Error ''429 RESOURCE_EXHAUSTED'')]"

definition uploaded :: app_state where
  "uploaded =
     idle\<lparr>originalImage := Some ''data:image/png;base64,AAAA'', isLoading := True,
          status := ''Reading image...''\<rparr>"

section \<open>The retry wrapper\<close>

lemma backoff_upt_Suc:
  "concat (map (\<lambda>k. [Invoke, Wait (delay * 2 ^ k)]) [0..<Suc N]) =
   [Invoke, Wait delay] @ concat (map (\<lambda>k. [Invoke, Wait (delay * 2 * 2 ^ k)]) [0..<N])"
proof -
  have "[0..<Suc N] = 0 # map Suc [0..<N]"
    by (simp add: upt_conv_Cons map_Suc_upt del: upt_Suc)
  then show ?thesis
    by (simp add: comp_def mult.assoc del: upt_Suc)
qed

lemma retry_succeeds_after:
  assumes "int N \<le> retries"
    and "\<forall>k<N. \<exists>e. fn (calls w + k) = Inl e \<and> isOverloaded e"
    and "fn (calls w + N) = Inr v"
  shows "retryWithBackoff fn retries delay w =
     (Inr v, \<lparr>calls = calls w + N + 1,
               trace = trace w @ concat (map (\<lambda>k. [Invoke, Wait (delay * 2 ^ k)]) [0..<N]) @ [Invoke]\<rparr>)"
  using assms
proof (induction N arbitrary: retries delay w)
  case 0
  then show ?case
    by (subst retryWithBackoff.simps) (simp add: invoke_def)
next
  case (Suc N)
  from Suc.prems(2) obtain e where e: "fn (calls w) = Inl e" "isOverloaded e"
    by force
  let ?w1 = "setTimeout delay (w\<lparr>calls := Suc (calls w), trace := trace w @ [Invoke]\<rparr>)"
  have c: "calls ?w1 = Suc (calls w)" and t: "trace ?w1 = trace w @ [Invoke, Wait delay]"
    by (simp_all add: setTimeout_def)
  have pos: "0 < retries" using Suc.prems(1) by simp
  have step: "retryWithBackoff fn retries delay w =
              retryWithBackoff fn (retries - 1) (delay * 2) ?w1"
    by (subst retryWithBackoff.simps) (simp add: invoke_def e pos)
  have "int N \<le> retries - 1" using Suc.prems(1) by simp
  moreover have "\<forall>k<N. \<exists>e. fn (calls ?w1 + k) = Inl e \<and> isOverloaded e"
    using Suc.prems(2) by (auto simp: c)
  moreover have "fn (calls ?w1 + N) = Inr v"
    using Suc.prems(3) by (simp add: c)
  ultimately have "retryWithBackoff fn (retries - 1) (delay * 2) ?w1 =
     (Inr v, \<lparr>calls = calls ?w1 + N + 1,
               trace = trace ?w1 @ concat (map (\<lambda>k. [Invoke, Wait (delay * 2 * 2 ^ k)]) [0..<N]) @ [Invoke]\<rparr>)"
    by (rule Suc.IH)
  then show ?case
    unfolding step by (simp only: c t backoff_upt_Suc) simp
qed

lemma retry_gives_up:
  assumes "\<forall>k\<le>n. \<exists>e. fn (calls w + k) = Inl e \<and> isOverloaded e"
  shows "retryWithBackoff fn (int n) delay w =
     (fn (calls w + n), \<lparr>calls = calls w + n + 1,
               trace = trace w @ concat (map (\<lambda>k. [Invoke, Wait (delay * 2 ^ k)]) [0..<n]) @ [Invoke]\<rparr>)"
  using assms
proof (induction n arbitrary: delay w)
  case 0
  then obtain e where e: "fn (calls w) = Inl e" by force
  then show ?case
    by (subst retryWithBackoff.simps) (simp add: invoke_def)
next
  case (Suc n)
  from Suc.prems obtain e where e: "fn (calls w) = Inl e" "isOverloaded e"
    by force
  let ?w1 = "setTimeout delay (w\<lparr>calls := Suc (calls w), trace := trace w @ [Invoke]\<rparr>)"
  have c: "calls ?w1 = Suc (calls w)" and t: "trace ?w1 = trace w @ [Invoke, Wait delay]"
    by (simp_all add: setTimeout_def)
  have step: "retryWithBackoff fn (int (Suc n)) delay w =
              retryWithBackoff fn (int n) (delay * 2) ?w1"
    by (subst retryWithBackoff.simps) (simp add: invoke_def e)
  have "\<forall>k\<le>n. \<exists>e. fn (calls ?w1 + k) = Inl e \<and> isOverloaded e"
  proof (intro allI impI)
    fix k assume "k \<le> n"
    then have "Suc k \<le> Suc n" by simp
    with Suc.prems have "\<exists>e. fn (calls w + Suc k) = Inl e \<and> isOverloaded e" by blast
    then show "\<exists>e. fn (calls ?w1 + k) = Inl e \<and> isOverloaded e" by (simp add: c)
  qed
  then have "retryWithBackoff fn (int n) (delay * 2) ?w1 =
     (fn (calls ?w1 + n), \<lparr>calls = calls ?w1 + n + 1,
               trace = trace ?w1 @ concat (map (\<lambda>k. [Invoke, Wait (delay * 2 * 2 ^ k)]) [0..<n]) @ [Invoke]\<rparr>)"
    by (rule Suc.IH)
  then show ?case
    unfolding step by (simp only: c t backoff_upt_Suc) simp
qed

lemma retry_calls_bound:
  "calls (snd (retryWithBackoff fn retries delay w)) \<le> calls w + nat retries + 1"
proof (induction fn retries delay w rule: retryWithBackoff.induct)
  case (1 fn retries delay w)
  show ?case
  proof (cases "fn (calls w)")
    case (Inr v)
    then show ?thesis
      by (subst retryWithBackoff.simps) (simp add: invoke_def)
  next
    case (Inl e)
    show ?thesis
    proof (cases "0 < retries \<and> isOverloaded e")
      case False
      then show ?thesis using Inl
        by (subst retryWithBackoff.simps) (auto simp: invoke_def)
    next
      case True
      let ?w1 = "w\<lparr>calls := Suc (calls w), trace := trace w @ [Invoke]\<rparr>"
      have "calls (snd (retryWithBackoff fn (retries - 1) (delay * 2) (setTimeout delay ?w1)))
            \<le> calls (setTimeout delay ?w1) + nat (retries - 1) + 1"
        using "1.IH" True Inl
        by (simp add: invoke_def)
      moreover have "retryWithBackoff fn retries delay w =
            retryWithBackoff fn (retries - 1) (delay * 2) (setTimeout delay ?w1)"
        using True Inl by (subst retryWithBackoff.simps) (simp add: invoke_def)
      moreover have "nat retries = Suc (nat (retries - 1))"
        using True by auto
      ultimately show ?thesis
        by (simp add: setTimeout_def)
    qed
  qed
qed

lemma retry_calls_grow:
  "calls w < calls (snd (retryWithBackoff fn retries delay w))"
proof (induction fn retries delay w rule: retryWithBackoff.induct)
  case (1 fn retries delay w)
  show ?case
  proof (cases "fn (calls w)")
    case (Inr v)
    then show ?thesis
      by (subst retryWithBackoff.simps) (simp add: invoke_def)
  next
    case (Inl e)
    show ?thesis
    proof (cases "0 < retries \<and> isOverloaded e")
      case False
      then show ?thesis using Inl
        by (subst retryWithBackoff.simps) (auto simp: invoke_def)
    next
      case True
      let ?w1 = "w\<lparr>calls := Suc (calls w), trace := trace w @ [Invoke]\<rparr>"
      have "calls (setTimeout delay ?w1)
            < calls (snd (retryWithBackoff fn (retries - 1) (delay * 2) (setTimeout delay ?w1)))"
        using "1.IH" True Inl
        by (simp add: invoke_def)
      moreover have "retryWithBackoff fn retries delay w =
            retryWithBackoff fn (retries - 1) (delay * 2) (setTimeout delay ?w1)"
        using True Inl by (subst retryWithBackoff.simps) (simp add: invoke_def)
      ultimately show ?thesis
        by (simp add: setTimeout_def)
    qed
  qed
qed

lemma retry_in_domain: "retryWithBackoff_dom (fn, retries, delay, w)"
proof -
  have "All (retryWithBackoff_dom ::
      (nat \<Rightarrow> js_error + 'a) \<times> int \<times> int \<times> io \<Rightarrow> bool)"
    by (relation "measure (\<lambda>(fn, retries, delay, w). nat retries)") auto
  then show ?thesis by simp
qed

text \<open>
  C1. An operation that fails with an overload signal on each of its first \<open>N\<close>
  invocations and succeeds on the next, \<open>N \<le> 3\<close>, makes \<open>retryWithBackoff\<close> at its default
  parameters return that success after exactly \<open>N + 1\<close> invocations; the events are
  invocation, wait 2000, invocation, wait 4000, ...: before the k-th retry the wait is
  \<open>2000 * 2 ^ (k - 1)\<close> milliseconds. When the first four invocations all fail with an
  overload signal, the wrapper stops after four invocations and three waits and throws the
  fourth failure.
\<close>

theorem retryWithBackoff_default_schedule:
  "(N \<le> 3 \<and> (\<forall>k<N. \<exists>e. fn (calls w + k) = Inl e \<and> isOverloaded e) \<and> fn (calls w + N) = Inr v \<longrightarrow>
      retryWithBackoff fn default_retries default_delay w =
        (Inr v, \<lparr>calls = calls w + (N + 1),
                  trace = trace w @ concat (map (\<lambda>k. [Invoke, Wait (2000 * 2 ^ k)]) [0..<N]) @ [Invoke]\<rparr>))
   \<and> ((\<forall>k<4. \<exists>e. fn (calls w + k) = Inl e \<and> isOverloaded e) \<longrightarrow>
      retryWithBackoff fn default_retries default_delay w =
        (fn (calls w + 3), \<lparr>calls = calls w + 4,
                  trace = trace w @ [Invoke, Wait 2000, Invoke, Wait 4000, Invoke, Wait 8000, Invoke]\<rparr>))"
proof (intro conjI impI)
  assume a: "N \<le> 3 \<and> (\<forall>k<N. \<exists>e. fn (calls w + k) = Inl e \<and> isOverloaded e) \<and> fn (calls w + N) = Inr v"
  then have "int N \<le> 3" by simp
  from retry_succeeds_after[OF this, of fn w v 2000] a
  show "retryWithBackoff fn default_retries default_delay w =
        (Inr v, \<lparr>calls = calls w + (N + 1),
                  trace = trace w @ concat (map (\<lambda>k. [Invoke, Wait (2000 * 2 ^ k)]) [0..<N]) @ [Invoke]\<rparr>)"
    by (simp add: default_retries_def default_delay_def)
next
  assume a: "\<forall>k<4. \<exists>e. fn (calls w + k) = Inl e \<and> isOverloaded e"
  then have "\<forall>k\<le>3. \<exists>e. fn (calls w + k) = Inl e \<and> isOverloaded e" by simp
  from retry_gives_up[OF this, of 2000]
  show "retryWithBackoff fn default_retries default_delay w =
        (fn (calls w + 3), \<lparr>calls = calls w + 4,
                  trace = trace w @ [Invoke, Wait 2000, Invoke, Wait 4000, Invoke, Wait 8000, Invoke]\<rparr>)"
    by (simp add: default_retries_def default_delay_def upt_rec numeral_eq_Suc)
qed

theorem retryWithBackoff_default_schedule_witness:
  "retryWithBackoff
      (\<lambda>k. if k < 2 then Inl \<lparr>js_error.status = Some 503, message = None, instanceofError = False\<rparr>
           else Inr (7::nat))
      default_retries default_delay \<lparr>calls = 0, trace = []\<rparr> =
     (Inr 7, \<lparr>calls = 3, trace = [Invoke, Wait 2000, Invoke, Wait 4000, Invoke]\<rparr>)
   \<and> retryWithBackoff
      (\<lambda>k. Inl (new_Error ''The model is overloaded. Please try again later.'') :: js_error + nat)
      default_retries default_delay \<lparr>calls = 0, trace = []\<rparr> =
     (Inl (new_Error ''The model is overloaded. Please try again later.''),
      \<lparr>calls = 4, trace = [Invoke, Wait 2000, Invoke, Wait 4000, Invoke, Wait 8000, Invoke]\<rparr>)"
  using retryWithBackoff_default_schedule
          [where N = 2 and w = "\<lparr>calls = 0, trace = []\<rparr>" and v = "7::nat"
             and fn = "\<lambda>k. if k < 2 then Inl \<lparr>js_error.status = Some 503, message = None, instanceofError = False\<rparr>
                           else Inr (7::nat)"]
        retryWithBackoff_default_schedule
          [where N = 0 and w = "\<lparr>calls = 0, trace = []\<rparr>" and v = "0::nat"
             and fn = "\<lambda>k. Inl (new_Error ''The model is overloaded. Please try again later.'')"]
  by (simp add: isOverloaded_def new_Error_def upt_rec numeral_eq_Suc)

text \<open>
  C2. When the failure of the operation is not an overload signal (its status is not 503
  and its message contains neither \<open>overloaded\<close> nor \<open>503\<close>), \<open>retryWithBackoff\<close> invokes
  the operation once and throws that same value, with no wait and no retry, whatever the
  retry budget and the delay are.
\<close>

theorem retryWithBackoff_no_retry:
  "fn (calls w) = Inl e \<Longrightarrow> \<not> isOverloaded e \<Longrightarrow>
   retryWithBackoff fn retries delay w =
     (Inl e, w\<lparr>calls := Suc (calls w), trace := trace w @ [Invoke]\<rparr>)"
  by (subst retryWithBackoff.simps) (simp add: invoke_def)

theorem retryWithBackoff_no_retry_witness:
  "\<not> isOverloaded (new_Error ''API key not valid'') \<and>
   retryWithBackoff (\<lambda>k. Inl (new_Error ''API key not valid'') :: js_error + nat) 3 2000
      \<lparr>calls = 0, trace = []\<rparr> =
     (Inl (new_Error ''API key not valid''), \<lparr>calls = 1, trace = [Invoke]\<rparr>)"
proof -
  have h: "\<not> isOverloaded (new_Error ''API key not valid'')"
    by (simp add: isOverloaded_def new_Error_def)
  show ?thesis
    using h retryWithBackoff_no_retry
          [where fn = "\<lambda>k. Inl (new_Error ''API key not valid'') :: js_error + nat"
             and w = "\<lparr>calls = 0, trace = []\<rparr>" and retries = 3 and delay = 2000, OF _ h]
    by simp
qed

text \<open>
  C9. For every operation, whatever its invocations do, and every retry budget \<open>r \<ge> 0\<close>,
  \<open>retryWithBackoff\<close> terminates: the call is in the domain of the recursion, whose
  termination proof is the measure \<open>nat retries\<close>, smaller at the recursive call. It
  invokes the operation at least once and at most \<open>r + 1\<close> times.
\<close>

theorem retryWithBackoff_terminates:
  "0 \<le> r \<Longrightarrow>
   retryWithBackoff_dom (fn, r, delay, w) \<and>
   calls w < calls (snd (retryWithBackoff fn r delay w)) \<and>
   int (calls (snd (retryWithBackoff fn r delay w))) - int (calls w) \<le> r + 1"
  using retry_in_domain[of fn r delay w] retry_calls_grow[of w fn r delay]
    retry_calls_bound[of fn r delay w]
  by simp

theorem retryWithBackoff_terminates_witness:
  "(0::int) \<le> 3 \<and>
   retryWithBackoff_dom
     (\<lambda>k. Inl (new_Error ''503 Service Unavailable'') :: js_error + nat, 3, 2000, \<lparr>calls = 0, trace = []\<rparr>) \<and>
   int (calls (snd (retryWithBackoff
     (\<lambda>k. Inl (new_Error ''503 Service Unavailable'') :: js_error + nat) 3 2000 \<lparr>calls = 0, trace = []\<rparr>)))
     - int (calls \<lparr>calls = 0, trace = []\<rparr>) \<le> 3 + 1"
  using retryWithBackoff_terminates
          [where r = 3 and fn = "\<lambda>k. Inl (new_Error ''503 Service Unavailable'') :: js_error + nat"
             and delay = 2000 and w = "\<lparr>calls = 0, trace = []\<rparr>"]
  by simp

section \<open>The parsing stage\<close>

lemma strings_filter_valid:
  "strings (filter isValidPrompt ps) = filter (\<lambda>p. 10 < length p) (strings ps)"
  by (induction ps rule: strings.induct) simp_all

lemma length_strings_valid:
  "length (filter isValidPrompt ps) = length (strings (filter isValidPrompt ps))"
  by (induction ps rule: strings.induct) simp_all

lemma strings_take_valid:
  "strings (take n (filter isValidPrompt ps)) = take n (strings (filter isValidPrompt ps))"
proof (induction ps arbitrary: n rule: strings.induct)
  case 1
  then show ?case by simp
next
  case (2 p ps)
  then show ?case by (cases n) simp_all
qed simp_all

lemma checkPrompts_object:
  assumes "get_prompts result = Some (JArray ps)"
    and "3 \<le> length (filter (\<lambda>p. 10 < length p) (strings ps))"
  shows "checkPrompts result = Some (take 3 (filter (\<lambda>p. 10 < length p) (strings ps)))"
  using assms
  by (simp add: checkPrompts_def Let_def length_strings_valid strings_take_valid strings_filter_valid)

lemma get_prompts_array: "get_prompts (JArray xs) = None"
  by simp



text \<open>The runtime's parser on the texts used below.\<close>

lemma parseJSON_short_prompts:
  "parseJSON (jsonTextOf (Some ''{\"prompts\":[\"front\",\"side\",\"top\"]}'')) =
     Some (JObject [(''prompts'', JArray [JString ''front'', JString ''side'', JString ''top''])])"
  by code_simp


lemma parseJSON_bare_numbers:
  "parseJSON (jsonTextOf (Some ''[1,2,3]'')) = Some (JArray [JNumber ''1'', JNumber ''2'', JNumber ''3''])"
  by code_simp

lemma parseJSON_no_json:
  "parseJSON (jsonTextOf (Some ''Sorry, I cannot help with that.'')) = None"
  by code_simp





text \<open>
  C10, as amended. The two copies of the parsing stage agree on every text that
  JSON.parse accepts once the fences are stripped and the text is cut to the braces: the
  same prompts or the same malformed-response error. On a text that JSON.parse rejects
  both fail, services/geminiService.ts with the error of its catch block and
  unnamed/part_001 with the malformed-response error. So they return on the same texts,
  and the same prompts.
\<close>

theorem parseRotationPrompts_copies:
  "(json_parse (jsonTextOf response_text) \<noteq> None \<longrightarrow>
      parseRotationPrompts_part001 json_parse response_text =
      parseRotationPrompts json_parse response_text)
   \<and> (json_parse (jsonTextOf response_text) = None \<longrightarrow>
      parseRotationPrompts json_parse response_text = Inl invalidInstructions
      \<and> parseRotationPrompts_part001 json_parse response_text = Inl malformedResponse)
   \<and> (\<forall>prompts. parseRotationPrompts_part001 json_parse response_text = Inr prompts \<longleftrightarrow>
      parseRotationPrompts json_parse response_text = Inr prompts)"
  by (cases "json_parse (jsonTextOf response_text)")
     (simp_all add: parseRotationPrompts_def parseRotationPrompts_part001_def)

theorem parseRotationPrompts_copies_witness:
  "parseRotationPrompts_part001 parseJSON (Some ''{\"prompts\":[\"front\",\"side\",\"top\"]}'') =
     parseRotationPrompts parseJSON (Some ''{\"prompts\":[\"front\",\"side\",\"top\"]}'')
   \<and> parseRotationPrompts parseJSON (Some ''Sorry, I cannot help with that.'') = Inl invalidInstructions
   \<and> parseRotationPrompts_part001 parseJSON (Some ''Sorry, I cannot help with that.'') =
     Inl malformedResponse"
  using parseRotationPrompts_copies[of parseJSON "Some ''{\"prompts\":[\"front\",\"side\",\"top\"]}''"]
    parseRotationPrompts_copies[of parseJSON "Some ''Sorry, I cannot help with that.''"]
  unfolding parseJSON_short_prompts parseJSON_no_json
  by simp

theorem parseRotationPrompts_copies_counterexample:
  "parseRotationPrompts parseJSON (Some ''Sorry, I cannot help with that.'') = Inl invalidInstructions
   \<and> parseRotationPrompts_part001 parseJSON (Some ''Sorry, I cannot help with that.'') =
     Inl malformedResponse
   \<and> parseRotationPrompts parseJSON (Some ''Sorry, I cannot help with that.'') \<noteq>
     parseRotationPrompts_part001 parseJSON (Some ''Sorry, I cannot help with that.'')"
  by (simp add: parseRotationPrompts_def parseRotationPrompts_part001_def parseJSON_no_json
        invalidInstructions_def malformedResponse_def new_Error_def)

section \<open>The two services\<close>

lemma retry_first_success:
  "fn (calls w) = Inr v \<Longrightarrow>
   retryWithBackoff fn retries delay w = (Inr v, w\<lparr>calls := Suc (calls w), trace := trace w @ [Invoke]\<rparr>)"
  by (subst retryWithBackoff.simps) (simp add: invoke_def)

lemma getAI_answering: "getAI (answering rs) = None"
  by (simp add: getAI_def answering_def)

text \<open>
  C4: whenever \<open>getRotationPrompts\<close> returns, through the object shape or through the bare
  array of the fallback, it returns exactly three prompts. The fallback breaks this: a
  response whose text is the bare array \<open>[1,2,3]\<close> makes \<open>getRotationPrompts\<close> return, and
  what it returns is the empty list, since the fallback counts the elements before it
  drops the ones that are not strings.
\<close>

theorem getRotationPrompts_bare_array:
  "getRotationPrompts (answering [Inr (textResponse ''[1,2,3]'')]) ''AAAA'' ''image/png'' False standard
     \<lparr>calls = 0, trace = []\<rparr> = (Inr [], \<lparr>calls = 1, trace = [Invoke]\<rparr>)"
proof -
  have "retryWithBackoff
          (\<lambda>k. generateContent (answering [Inr (textResponse ''[1,2,3]'')]) k
                 (promptsRequest (answering [Inr (textResponse ''[1,2,3]'')]) ''AAAA'' ''image/png'' False standard))
          default_retries default_delay \<lparr>calls = 0, trace = []\<rparr> =
        (Inr (textResponse ''[1,2,3]''), \<lparr>calls = 1, trace = [Invoke]\<rparr>)"
    by (subst retry_first_success[where v = "textResponse ''[1,2,3]''"]) (simp_all add: answering_def)
  moreover have "parseRotationPrompts parseJSON (Some ''[1,2,3]'') = Inr []"
    by (simp add: parseRotationPrompts_def parseJSON_bare_numbers checkPrompts_def fallbackPrompts_def)
  moreover have "JSON_parse (answering [Inr (textResponse ''[1,2,3]'')]) = parseJSON"
    by (simp add: answering_def)
  ultimately show ?thesis
    by (simp add: getRotationPrompts_def getAI_answering textResponse_def)
qed

text \<open>
  The object shape gives exactly three prompts, and no shape gives more than three.
\<close>

lemma checkPrompts_object_three:
  assumes "get_prompts result = Some (JArray ps)"
    and "3 \<le> length (filter (\<lambda>p. 10 < length p) (strings ps))"
  shows "\<exists>prompts. checkPrompts result = Some prompts \<and> length prompts = 3"
  using checkPrompts_object[OF assms] assms(2) by simp

lemma checkPrompts_at_most_three: "checkPrompts result = Some prompts \<Longrightarrow> length prompts \<le> 3"
proof -
  have s: "length (strings xs) \<le> length xs" for xs
    by (induction xs rule: strings.induct) simp_all
  have "length (strings (take 3 xs)) \<le> 3" for xs
    using s[of "take 3 xs"] by simp
  moreover have "length (strings (filter isString (take 3 xs))) \<le> 3" for xs
  proof -
    have "length (filter isString (take 3 xs)) \<le> 3"
      using length_filter_le[of isString "take 3 xs"] by simp
    then show ?thesis using s[of "filter isString (take 3 xs)"] by simp
  qed
  moreover assume "checkPrompts result = Some prompts"
  ultimately show ?thesis
    by (auto simp: checkPrompts_def fallbackPrompts_def Let_def
             split: option.splits json.splits if_splits)
qed

text \<open>
  C5. For every response that the model gives to the request of \<open>generateRotatedImage\<close>:
  when the parts of the first candidate's content hold a part with inline data, the
  function returns \<open>data:\<close>, the MIME type, \<open>;base64,\<close> and the payload of the first such
  part; it throws exactly when there is no such part, and what it throws then is the
  did-not-return-an-image error.
\<close>

theorem generateRotatedImage_data_uri:
  assumes "getAI e = None"
    and "retryWithBackoff
           (\<lambda>k. generateContent e k (imageRequest base64Image mimeType' prompt' mode style aspectRatio))
           default_retries default_delay w = (Inr response, w1)"
  shows "(\<forall>before part after blob.
            firstCandidateParts response = Some (before @ part # after)
            \<and> (\<forall>q \<in> set before. inlineData q = None) \<and> inlineData part = Some blob \<longrightarrow>
          generateRotatedImage e base64Image mimeType' prompt' mode style aspectRatio w =
            (Inr (''data:'' @ template (mimeType blob) @ '';base64,'' @ template (data blob)), w1))
       \<and> ((\<exists>err. generateRotatedImage e base64Image mimeType' prompt' mode style aspectRatio w = (Inl err, w1))
            \<longleftrightarrow> (\<forall>ps. firstCandidateParts response = Some ps \<longrightarrow> (\<forall>q \<in> set ps. inlineData q = None)))
       \<and> ((\<forall>ps. firstCandidateParts response = Some ps \<longrightarrow> (\<forall>q \<in> set ps. inlineData q = None)) \<longrightarrow>
          generateRotatedImage e base64Image mimeType' prompt' mode style aspectRatio w = (Inl noImage, w1))"
proof -
  have g: "generateRotatedImage e base64Image mimeType' prompt' mode style aspectRatio w =
           (imageOfResponse response, w1)"
    using assms by (simp add: generateRotatedImage_def)
  have found: "imageOfResponse response =
      Inr (''data:'' @ template (mimeType blob) @ '';base64,'' @ template (data blob))"
    if "firstCandidateParts response = Some (before @ part # after)"
      and "\<forall>q \<in> set before. inlineData q = None" and "inlineData part = Some blob"
    for before part after blob
  proof -
    have "find (\<lambda>part. inlineData part \<noteq> None) (before @ part # after) = Some part"
      using that(2,3) by (induction before) simp_all
    then show ?thesis using that by (simp add: imageOfResponse_def)
  qed
  have none: "imageOfResponse response = Inl noImage"
    if "\<forall>ps. firstCandidateParts response = Some ps \<longrightarrow> (\<forall>q \<in> set ps. inlineData q = None)"
  proof (cases "firstCandidateParts response")
    case None
    then show ?thesis by (simp add: imageOfResponse_def)
  next
    case (Some ps)
    with that have "find (\<lambda>part. inlineData part \<noteq> None) ps = None"
      by (simp add: find_None_iff)
    with Some show ?thesis by (simp add: imageOfResponse_def)
  qed
  have some: "\<exists>uri. imageOfResponse response = Inr uri"
    if "firstCandidateParts response = Some ps" and "q \<in> set ps" and "inlineData q \<noteq> None"
    for ps q
  proof -
    from that(2,3) obtain part where f: "find (\<lambda>part. inlineData part \<noteq> None) ps = Some part"
      by (cases "find (\<lambda>part. inlineData part \<noteq> None) ps") (auto simp: find_None_iff)
    then have "inlineData part \<noteq> None"
      by (auto simp: find_Some_iff)
    then obtain blob where "inlineData part = Some blob" by auto
    with f that(1) show ?thesis by (simp add: imageOfResponse_def)
  qed
  show ?thesis
  proof (intro conjI allI impI)
    fix before part after blob
    assume "firstCandidateParts response = Some (before @ part # after)
            \<and> (\<forall>q \<in> set before. inlineData q = None) \<and> inlineData part = Some blob"
    then show "generateRotatedImage e base64Image mimeType' prompt' mode style aspectRatio w =
            (Inr (''data:'' @ template (mimeType blob) @ '';base64,'' @ template (data blob)), w1)"
      using found g by simp
  next
    show "(\<exists>err. generateRotatedImage e base64Image mimeType' prompt' mode style aspectRatio w = (Inl err, w1))
            \<longleftrightarrow> (\<forall>ps. firstCandidateParts response = Some ps \<longrightarrow> (\<forall>q \<in> set ps. inlineData q = None))"
    proof
      assume "\<exists>err. generateRotatedImage e base64Image mimeType' prompt' mode style aspectRatio w = (Inl err, w1)"
      then obtain err where "imageOfResponse response = Inl err" using g by auto
      then show "\<forall>ps. firstCandidateParts response = Some ps \<longrightarrow> (\<forall>q \<in> set ps. inlineData q = None)"
        using some by fastforce
    next
      assume "\<forall>ps. firstCandidateParts response = Some ps \<longrightarrow> (\<forall>q \<in> set ps. inlineData q = None)"
      then show "\<exists>err. generateRotatedImage e base64Image mimeType' prompt' mode style aspectRatio w = (Inl err, w1)"
        using none g by simp
    qed
  next
    assume "\<forall>ps. firstCandidateParts response = Some ps \<longrightarrow> (\<forall>q \<in> set ps. inlineData q = None)"
    then show "generateRotatedImage e base64Image mimeType' prompt' mode style aspectRatio w = (Inl noImage, w1)"
      using none g by simp
  qed
qed

theorem generateRotatedImage_data_uri_witness:
  "generateRotatedImage (answering [Inr (imageResponse ''image/png'' ''iVBOR'')])
      ''AAAA'' ''image/jpeg'' ''side view'' standard None None \<lparr>calls = 0, trace = []\<rparr> =
     (Inr ''data:image/png;base64,iVBOR'', \<lparr>calls = 1, trace = [Invoke]\<rparr>)
   \<and> generateRotatedImage (answering [Inr (textResponse ''I cannot draw this.'')])
      ''AAAA'' ''image/jpeg'' ''side view'' standard None None \<lparr>calls = 0, trace = []\<rparr> =
     (Inl noImage, \<lparr>calls = 1, trace = [Invoke]\<rparr>)"
proof -
  let ?w = "\<lparr>calls = 0, trace = []\<rparr>" and ?w1 = "\<lparr>calls = 1, trace = [Invoke]\<rparr>"
  let ?request = "imageRequest ''AAAA'' ''image/jpeg'' ''side view'' standard None None"
  let ?image = "imageResponse ''image/png'' ''iVBOR''"
  let ?refusal = "textResponse ''I cannot draw this.''"
  have a: "retryWithBackoff (\<lambda>k. generateContent (answering [Inr ?image]) k ?request)
             default_retries default_delay ?w = (Inr ?image, ?w1)"
    by (subst retry_first_success[where v = ?image]) (simp_all add: answering_def)
  have b: "retryWithBackoff (\<lambda>k. generateContent (answering [Inr ?refusal]) k ?request)
             default_retries default_delay ?w = (Inr ?refusal, ?w1)"
    by (subst retry_first_success[where v = ?refusal]) (simp_all add: answering_def)
  have "firstCandidateParts ?image =
          Some ([\<lparr>inlineData = None, text' = Some ''Here is the view.''\<rparr>] @
                \<lparr>inlineData = Some \<lparr>data = Some ''iVBOR'', mimeType = Some ''image/png''\<rparr>, text' = None\<rparr> # [])"
    by (simp add: firstCandidateParts_def imageResponse_def)
  with generateRotatedImage_data_uri[OF getAI_answering a, THEN conjunct1, rule_format,
         of "[\<lparr>inlineData = None, text' = Some ''Here is the view.''\<rparr>]"
            "\<lparr>inlineData = Some \<lparr>data = Some ''iVBOR'', mimeType = Some ''image/png''\<rparr>, text' = None\<rparr>"
            "[]" "\<lparr>data = Some ''iVBOR'', mimeType = Some ''image/png''\<rparr>"]
  have "generateRotatedImage (answering [Inr ?image]) ''AAAA'' ''image/jpeg'' ''side view'' standard None None ?w =
          (Inr ''data:image/png;base64,iVBOR'', ?w1)"
    by (simp add: template_def)
  moreover have "firstCandidateParts ?refusal = None"
    by (simp add: firstCandidateParts_def textResponse_def)
  with generateRotatedImage_data_uri[OF getAI_answering b, THEN conjunct2, THEN conjunct2]
  have "generateRotatedImage (answering [Inr ?refusal]) ''AAAA'' ''image/jpeg'' ''side view'' standard None None ?w =
          (Inl noImage, ?w1)"
    by simp
  ultimately show ?thesis by simp
qed

text \<open>
  The request of \<open>generateRotatedImage\<close>: its text part by style; its model, image part
  and configuration are those of the request with the default style.
\<close>

lemma imageRequest_style:
  "(style = None \<or> style = Some ''Realistic'' \<longrightarrow>
      parts (contents (imageRequest base64Image mimeType' prompt' mode style aspectRatio)) =
        Some [\<lparr>inlineData = Some \<lparr>data = Some base64Image, mimeType = Some mimeType'\<rparr>, text' = None\<rparr>,
              \<lparr>inlineData = None, text' = Some prompt'\<rparr>])
   \<and> (\<forall>s. style = Some s \<and> s \<noteq> ''Realistic'' \<longrightarrow>
      parts (contents (imageRequest base64Image mimeType' prompt' mode style aspectRatio)) =
        Some [\<lparr>inlineData = Some \<lparr>data = Some base64Image, mimeType = Some mimeType'\<rparr>, text' = None\<rparr>,
              \<lparr>inlineData = None, text' = Some (prompt' @
                 ''\<newline>\<newline>IMPORTANT: Render this image in the style of: '' @ s @
                 ''. Maintain the subject's identity but apply this art style strongly.'')\<rparr>])
   \<and> model (imageRequest base64Image mimeType' prompt' mode style aspectRatio) =
     model (imageRequest base64Image mimeType' prompt' mode (Some ''Realistic'') aspectRatio)
   \<and> config (imageRequest base64Image mimeType' prompt' mode style aspectRatio) =
     config (imageRequest base64Image mimeType' prompt' mode (Some ''Realistic'') aspectRatio)"
  by (auto simp: imageRequest_def finalPrompt_def Let_def)

text \<open>
  C7. With the style \<open>Realistic\<close>, given or by default, \<open>generateRotatedImage\<close> submits the
  prompt as it is: the request that it passes to \<open>generateContent\<close>, under the retry
  wrapper, has the prompt as its text part. With every other style the text part is the
  prompt followed by the style instruction that names the style. The model, the image
  part and the configuration of the request are the same in both cases.
\<close>

theorem generateRotatedImage_submits:
  "(style = None \<or> style = Some ''Realistic'' \<longrightarrow>
      generateRotatedImage e base64Image mimeType' prompt' mode style aspectRatio w =
        (case getAI e of
           Some err \<Rightarrow> (Inl err, w)
         | None \<Rightarrow>
             (case retryWithBackoff
                     (\<lambda>k. generateContent e k
                        \<lparr>model = (if mode = pro then ''gemini-3-pro-image-preview'' else ''gemini-2.5-flash-image''),
                         contents = \<lparr>parts = Some
                           [\<lparr>inlineData = Some \<lparr>data = Some base64Image, mimeType = Some mimeType'\<rparr>, text' = None\<rparr>,
                            \<lparr>inlineData = None, text' = Some prompt'\<rparr>]\<rparr>,
                         config = \<lparr>responseMimeType = None, responseSchema = None,
                                   imageConfig_aspectRatio =
                                     Some (case aspectRatio of None \<Rightarrow> ''1:1'' | Some r \<Rightarrow> r)\<rparr>\<rparr>)
                     default_retries default_delay w of
                (Inl err, w1) \<Rightarrow> (Inl err, w1)
              | (Inr response, w1) \<Rightarrow> (imageOfResponse response, w1))))
   \<and> (\<forall>s. style = Some s \<and> s \<noteq> ''Realistic'' \<longrightarrow>
      generateRotatedImage e base64Image mimeType' prompt' mode style aspectRatio w =
        (case getAI e of
           Some err \<Rightarrow> (Inl err, w)
         | None \<Rightarrow>
             (case retryWithBackoff
                     (\<lambda>k. generateContent e k
                        \<lparr>model = (if mode = pro then ''gemini-3-pro-image-preview'' else ''gemini-2.5-flash-image''),
                         contents = \<lparr>parts = Some
                           [\<lparr>inlineData = Some \<lparr>data = Some base64Image, mimeType = Some mimeType'\<rparr>, text' = None\<rparr>,
                            \<lparr>inlineData = None, text' = Some (prompt' @
                               ''\<newline>\<newline>IMPORTANT: Render this image in the style of: '' @ s @
                               ''. Maintain the subject's identity but apply this art style strongly.'')\<rparr>]\<rparr>,
                         config = \<lparr>responseMimeType = None, responseSchema = None,
                                   imageConfig_aspectRatio =
                                     Some (case aspectRatio of None \<Rightarrow> ''1:1'' | Some r \<Rightarrow> r)\<rparr>\<rparr>)
                     default_retries default_delay w of
                (Inl err, w1) \<Rightarrow> (Inl err, w1)
              | (Inr response, w1) \<Rightarrow> (imageOfResponse response, w1))))"
proof (intro conjI allI impI)
  assume "style = None \<or> style = Some ''Realistic''"
  then have "imageRequest base64Image mimeType' prompt' mode style aspectRatio =
      \<lparr>model = (if mode = pro then ''gemini-3-pro-image-preview'' else ''gemini-2.5-flash-image''),
       contents = \<lparr>parts = Some
         [\<lparr>inlineData = Some \<lparr>data = Some base64Image, mimeType = Some mimeType'\<rparr>, text' = None\<rparr>,
          \<lparr>inlineData = None, text' = Some prompt'\<rparr>]\<rparr>,
       config = \<lparr>responseMimeType = None, responseSchema = None,
                 imageConfig_aspectRatio = Some (case aspectRatio of None \<Rightarrow> ''1:1'' | Some r \<Rightarrow> r)\<rparr>\<rparr>"
    by (auto simp: imageRequest_def finalPrompt_def Let_def)
  then show "generateRotatedImage e base64Image mimeType' prompt' mode style aspectRatio w =
        (case getAI e of
           Some err \<Rightarrow> (Inl err, w)
         | None \<Rightarrow>
             (case retryWithBackoff
                     (\<lambda>k. generateContent e k
                        \<lparr>model = (if mode = pro then ''gemini-3-pro-image-preview'' else ''gemini-2.5-flash-image''),
                         contents = \<lparr>parts = Some
                           [\<lparr>inlineData = Some \<lparr>data = Some base64Image, mimeType = Some mimeType'\<rparr>, text' = None\<rparr>,
                            \<lparr>inlineData = None, text' = Some prompt'\<rparr>]\<rparr>,
                         config = \<lparr>responseMimeType = None, responseSchema = None,
                                   imageConfig_aspectRatio =
                                     Some (case aspectRatio of None \<Rightarrow> ''1:1'' | Some r \<Rightarrow> r)\<rparr>\<rparr>)
                     default_retries default_delay w of
                (Inl err, w1) \<Rightarrow> (Inl err, w1)
              | (Inr response, w1) \<Rightarrow> (imageOfResponse response, w1)))"
    by (simp only: generateRotatedImage_def)
next
  fix s
  assume "style = Some s \<and> s \<noteq> ''Realistic''"
  then have "imageRequest base64Image mimeType' prompt' mode style aspectRatio =
      \<lparr>model = (if mode = pro then ''gemini-3-pro-image-preview'' else ''gemini-2.5-flash-image''),
       contents = \<lparr>parts = Some
         [\<lparr>inlineData = Some \<lparr>data = Some base64Image, mimeType = Some mimeType'\<rparr>, text' = None\<rparr>,
          \<lparr>inlineData = None, text' = Some (prompt' @
             ''\<newline>\<newline>IMPORTANT: Render this image in the style of: '' @ s @
             ''. Maintain the subject's identity but apply this art style strongly.'')\<rparr>]\<rparr>,
       config = \<lparr>responseMimeType = None, responseSchema = None,
                 imageConfig_aspectRatio = Some (case aspectRatio of None \<Rightarrow> ''1:1'' | Some r \<Rightarrow> r)\<rparr>\<rparr>"
    by (auto simp: imageRequest_def finalPrompt_def Let_def)
  then show "generateRotatedImage e base64Image mimeType' prompt' mode style aspectRatio w =
        (case getAI e of
           Some err \<Rightarrow> (Inl err, w)
         | None \<Rightarrow>
             (case retryWithBackoff
                     (\<lambda>k. generateContent e k
                        \<lparr>model = (if mode = pro then ''gemini-3-pro-image-preview'' else ''gemini-2.5-flash-image''),
                         contents = \<lparr>parts = Some
                           [\<lparr>inlineData = Some \<lparr>data = Some base64Image, mimeType = Some mimeType'\<rparr>, text' = None\<rparr>,
                            \<lparr>inlineData = None, text' = Some (prompt' @
                               ''\<newline>\<newline>IMPORTANT: Render this image in the style of: '' @ s @
                               ''. Maintain the subject's identity but apply this art style strongly.'')\<rparr>]\<rparr>,
                         config = \<lparr>responseMimeType = None, responseSchema = None,
                                   imageConfig_aspectRatio =
                                     Some (case aspectRatio of None \<Rightarrow> ''1:1'' | Some r \<Rightarrow> r)\<rparr>\<rparr>)
                     default_retries default_delay w of
                (Inl err, w1) \<Rightarrow> (Inl err, w1)
              | (Inr response, w1) \<Rightarrow> (imageOfResponse response, w1)))"
    by (simp only: generateRotatedImage_def)
qed

lemma getAI_expecting: "getAI (expecting request response) = None"
  by (simp add: getAI_def expecting_def)

lemma imageOfResponse_imageResponse:
  "imageOfResponse (imageResponse mt payload) = Inr (''data:'' @ mt @ '';base64,'' @ payload)"
  by (simp add: imageOfResponse_def firstCandidateParts_def imageResponse_def template_def)

theorem generateRotatedImage_submits_witness:
  "generateRotatedImage
      (expecting
         \<lparr>model = ''gemini-2.5-flash-image'',
          contents = \<lparr>parts = Some
            [\<lparr>inlineData = Some \<lparr>data = Some ''AAAA'', mimeType = Some ''image/png''\<rparr>, text' = None\<rparr>,
             \<lparr>inlineData = None, text' = Some ''side view''\<rparr>]\<rparr>,
          config = \<lparr>responseMimeType = None, responseSchema = None, imageConfig_aspectRatio = Some ''16:9''\<rparr>\<rparr>
         (imageResponse ''image/png'' ''AAA1''))
      ''AAAA'' ''image/png'' ''side view'' standard (Some ''Realistic'') (Some ''16:9'')
      \<lparr>calls = 0, trace = []\<rparr> =
     (Inr ''data:image/png;base64,AAA1'', \<lparr>calls = 1, trace = [Invoke]\<rparr>)
   \<and> generateRotatedImage
      (expecting
         \<lparr>model = ''gemini-2.5-flash-image'',
          contents = \<lparr>parts = Some
            [\<lparr>inlineData = Some \<lparr>data = Some ''AAAA'', mimeType = Some ''image/png''\<rparr>, text' = None\<rparr>,
             \<lparr>inlineData = None, text' = Some
               ''side view\<newline>\<newline>IMPORTANT: Render this image in the style of: Sketch. Maintain the subject's identity but apply this art style strongly.''\<rparr>]\<rparr>,
          config = \<lparr>responseMimeType = None, responseSchema = None, imageConfig_aspectRatio = Some ''16:9''\<rparr>\<rparr>
         (imageResponse ''image/png'' ''AAA2''))
      ''AAAA'' ''image/png'' ''side view'' standard (Some ''Sketch'') (Some ''16:9'')
      \<lparr>calls = 0, trace = []\<rparr> =
     (Inr ''data:image/png;base64,AAA2'', \<lparr>calls = 1, trace = [Invoke]\<rparr>)"
proof -
  let ?w = "\<lparr>calls = 0, trace = []\<rparr>"
  let ?plain = "\<lparr>model = ''gemini-2.5-flash-image'',
          contents = \<lparr>parts = Some
            [\<lparr>inlineData = Some \<lparr>data = Some ''AAAA'', mimeType = Some ''image/png''\<rparr>, text' = None\<rparr>,
             \<lparr>inlineData = None, text' = Some ''side view''\<rparr>]\<rparr>,
          config = \<lparr>responseMimeType = None, responseSchema = None, imageConfig_aspectRatio = Some ''16:9''\<rparr>\<rparr>"
  let ?styled = "\<lparr>model = ''gemini-2.5-flash-image'',
          contents = \<lparr>parts = Some
            [\<lparr>inlineData = Some \<lparr>data = Some ''AAAA'', mimeType = Some ''image/png''\<rparr>, text' = None\<rparr>,
             \<lparr>inlineData = None, text' = Some
               ''side view\<newline>\<newline>IMPORTANT: Render this image in the style of: Sketch. Maintain the subject's identity but apply this art style strongly.''\<rparr>]\<rparr>,
          config = \<lparr>responseMimeType = None, responseSchema = None, imageConfig_aspectRatio = Some ''16:9''\<rparr>\<rparr>"
  have a: "retryWithBackoff
             (\<lambda>k. generateContent (expecting ?plain (imageResponse ''image/png'' ''AAA1'')) k ?plain)
             default_retries default_delay ?w =
           (Inr (imageResponse ''image/png'' ''AAA1''), \<lparr>calls = 1, trace = [Invoke]\<rparr>)"
    by (subst retry_first_success[where v = "imageResponse ''image/png'' ''AAA1''"])
       (simp_all add: expecting_def)
  have b: "retryWithBackoff
             (\<lambda>k. generateContent (expecting ?styled (imageResponse ''image/png'' ''AAA2'')) k ?styled)
             default_retries default_delay ?w =
           (Inr (imageResponse ''image/png'' ''AAA2''), \<lparr>calls = 1, trace = [Invoke]\<rparr>)"
    by (subst retry_first_success[where v = "imageResponse ''image/png'' ''AAA2''"])
       (simp_all add: expecting_def)
  have "generateRotatedImage (expecting ?plain (imageResponse ''image/png'' ''AAA1''))
          ''AAAA'' ''image/png'' ''side view'' standard (Some ''Realistic'') (Some ''16:9'') ?w =
        (Inr ''data:image/png;base64,AAA1'', \<lparr>calls = 1, trace = [Invoke]\<rparr>)"
    using generateRotatedImage_submits
            [where style = "Some ''Realistic''" and e = "expecting ?plain (imageResponse ''image/png'' ''AAA1'')"
               and base64Image = "''AAAA''" and mimeType' = "''image/png''" and prompt' = "''side view''"
               and mode = standard and aspectRatio = "Some ''16:9''" and w = ?w]
    by (simp add: getAI_expecting a imageOfResponse_imageResponse)
  moreover have "generateRotatedImage (expecting ?styled (imageResponse ''image/png'' ''AAA2''))
          ''AAAA'' ''image/png'' ''side view'' standard (Some ''Sketch'') (Some ''16:9'') ?w =
        (Inr ''data:image/png;base64,AAA2'', \<lparr>calls = 1, trace = [Invoke]\<rparr>)"
    using generateRotatedImage_submits
            [where style = "Some ''Sketch''" and e = "expecting ?styled (imageResponse ''image/png'' ''AAA2'')"
               and base64Image = "''AAAA''" and mimeType' = "''image/png''" and prompt' = "''side view''"
               and mode = standard and aspectRatio = "Some ''16:9''" and w = ?w]
    by (simp add: getAI_expecting b imageOfResponse_imageResponse)
  ultimately show ?thesis by (rule conjI)
qed

section \<open>The orchestration\<close>

lemma upt_Suc_shift: "map f [0..<Suc k] = f 0 # map (\<lambda>j. f (Suc j)) [0..<k]"
proof -
  have "[0..<Suc k] = 0 # map Suc [0..<k]"
    by (simp add: upt_conv_Cons map_Suc_upt del: upt_Suc)
  then show ?thesis by (simp add: comp_def del: upt_Suc)
qed


lemma generateViews_fails:
  assumes "i + k < 3"
    and "\<forall>j<k. generateRotatedImage e base64Image mimeType' (prompts ! (i + j)) (modelMode st)
                  (Some (selectedStyle st)) (Some (selectedRatio st)) (ws j) = (Inr (imgs j), ws (Suc j))"
    and "generateRotatedImage e base64Image mimeType' (prompts ! (i + k)) (modelMode st)
                  (Some (selectedStyle st)) (Some (selectedRatio st)) (ws k) = (Inl err, w')"
  shows "generateViews e base64Image mimeType' prompts i newImages st (ws 0) =
     (Some err,
      st\<lparr>status := viewStatus (i + k),
         generatedImages :=
           (if k = 0 then generatedImages st
            else newImages @ map (\<lambda>j. \<lparr>src = imgs j, prompt = prompts ! (i + j)\<rparr>) [0..<k])\<rparr>,
      w')"
  using assms
proof (induction k arbitrary: i newImages st ws imgs)
  case 0
  then show ?case by (subst generateViews.simps) (simp add: Let_def)
next
  case (Suc k)
  let ?new = "newImages @ [\<lparr>src = imgs 0, prompt = prompts ! i\<rparr>]"
  let ?st = "st\<lparr>status := viewStatus i, generatedImages := ?new\<rparr>"
  have first: "generateRotatedImage e base64Image mimeType' (prompts ! i) (modelMode st)
                 (Some (selectedStyle st)) (Some (selectedRatio st)) (ws 0) = (Inr (imgs 0), ws (Suc 0))"
    using Suc.prems(2) by force
  have step: "generateViews e base64Image mimeType' prompts i newImages st (ws 0) =
              generateViews e base64Image mimeType' prompts (Suc i) ?new ?st (ws (Suc 0))"
    using Suc.prems(1) first by (subst generateViews.simps) (simp add: Let_def)
  have "Suc i + k < 3" using Suc.prems(1) by simp
  moreover have "\<forall>j<k. generateRotatedImage e base64Image mimeType' (prompts ! (Suc i + j)) (modelMode ?st)
                  (Some (selectedStyle ?st)) (Some (selectedRatio ?st)) (ws (Suc j)) =
                  (Inr (imgs (Suc j)), ws (Suc (Suc j)))"
    using Suc.prems(2) by auto
  moreover have "generateRotatedImage e base64Image mimeType' (prompts ! (Suc i + k)) (modelMode ?st)
                  (Some (selectedStyle ?st)) (Some (selectedRatio ?st)) (ws (Suc k)) = (Inl err, w')"
    using Suc.prems(3) by simp
  ultimately have "generateViews e base64Image mimeType' prompts (Suc i) ?new ?st (ws (Suc 0)) =
     (Some err,
      ?st\<lparr>status := viewStatus (Suc i + k),
          generatedImages :=
            (if k = 0 then generatedImages ?st
             else ?new @ map (\<lambda>j. \<lparr>src = imgs (Suc j), prompt = prompts ! (Suc i + j)\<rparr>) [0..<k])\<rparr>,
      w')"
    by (rule Suc.IH[where ws = "\<lambda>j. ws (Suc j)" and imgs = "\<lambda>j. imgs (Suc j)"])
  then show ?case
    unfolding step by (auto simp: upt_Suc_shift simp del: upt_Suc)
qed

lemma catchError_keeps:
  "generatedImages (catchError err st) = generatedImages st"
  "app_state.status (catchError err st) = ''Failed''"
  "isLoading (catchError err st) = isLoading st"
  "originalImage (catchError err st) = originalImage st"
  by (simp_all add: catchError_def Let_def)


text \<open>
  C8. When the prompts were derived and the run fails in the render call of view
  \<open>k + 1\<close>, after \<open>k\<close> views were generated, \<open>k\<close> being 1 or 2, the result list still holds
  the \<open>k\<close> generated images with their prompts, and the status is \<open>Failed\<close>.
\<close>

theorem processImage_keeps_partial_results:
  assumes "k = 1 \<or> k = 2"
    and "getRotationPrompts e base64Image mimeType' (isObjectRotationOnly st) (modelMode st) w =
           (Inr prompts, ws 0)"
    and "3 \<le> length prompts"
    and "\<forall>j<k. generateRotatedImage e base64Image mimeType' (prompts ! j) (modelMode st)
                  (Some (selectedStyle st)) (Some (selectedRatio st)) (ws j) = (Inr (imgs j), ws (Suc j))"
    and "generateRotatedImage e base64Image mimeType' (prompts ! k) (modelMode st)
                  (Some (selectedStyle st)) (Some (selectedRatio st)) (ws k) = (Inl err, w')"
  shows "generatedImages (fst (processImage e base64Image mimeType' st w)) =
           map (\<lambda>j. \<lparr>src = imgs j, prompt = prompts ! j\<rparr>) [0..<k]
       \<and> app_state.status (fst (processImage e base64Image mimeType' st w)) = ''Failed''
       \<and> \<not> isLoading (fst (processImage e base64Image mimeType' st w))
       \<and> snd (processImage e base64Image mimeType' st w) = w'"
proof -
  let ?st2 = "st\<lparr>error := '''', status := ''Analyzing scene geometry...''\<rparr>"
  have k: "0 + k < 3" "k \<noteq> 0" using assms(1) by auto
  have renders: "\<forall>j<k. generateRotatedImage e base64Image mimeType' (prompts ! (0 + j)) (modelMode ?st2)
                  (Some (selectedStyle ?st2)) (Some (selectedRatio ?st2)) (ws j) = (Inr (imgs j), ws (Suc j))"
    using assms(4) by simp
  have failure: "generateRotatedImage e base64Image mimeType' (prompts ! (0 + k)) (modelMode ?st2)
                  (Some (selectedStyle ?st2)) (Some (selectedRatio ?st2)) (ws k) = (Inl err, w')"
    using assms(5) by simp
  have loop: "generateViews e base64Image mimeType' prompts 0 [] ?st2 (ws 0) =
     (Some err,
      ?st2\<lparr>status := viewStatus (0 + k),
           generatedImages :=
             (if k = 0 then generatedImages ?st2
              else [] @ map (\<lambda>j. \<lparr>src = imgs j, prompt = prompts ! (0 + j)\<rparr>) [0..<k])\<rparr>,
      w')"
    by (rule generateViews_fails[OF k(1) renders failure])
  have "\<not> length prompts < 3" using assms(3) by simp
  then show ?thesis
    using k(2) by (simp add: processImage_def assms(2) loop catchError_keeps)
qed

section \<open>Two runs\<close>






lemma failing_run_prompts:
  "getRotationPrompts (answering failing_run) ''AAAA'' ''image/png''
      (isObjectRotationOnly uploaded) (modelMode uploaded) \<lparr>calls = 0, trace = []\<rparr> =
     (Inr [''front view of it'', ''side view of it'', ''top view of it!''],
      \<lparr>calls = 1, trace = [Invoke]\<rparr>)"
  by code_simp

lemma failing_run_view1:
  "generateRotatedImage (answering failing_run) ''AAAA'' ''image/png'' ''front view of it''
      (modelMode uploaded) (Some (selectedStyle uploaded)) (Some (selectedRatio uploaded))
      \<lparr>calls = 1, trace = [Invoke]\<rparr> =
     (Inr ''data:image/png;base64,AAA1'', \<lparr>calls = 2, trace = [Invoke, Invoke]\<rparr>)"
  by code_simp

lemma failing_run_view2:
  "generateRotatedImage (answering failing_run) ''AAAA'' ''image/png'' ''side view of it''
      (modelMode uploaded) (Some (selectedStyle uploaded)) (Some (selectedRatio uploaded))
      \<lparr>calls = 2, trace = [Invoke, Invoke]\<rparr> =
     (Inl (new_Error ''429 RESOURCE_EXHAUSTED''), \<lparr>calls = 3, trace = [Invoke, Invoke, Invoke]\<rparr>)"
  by code_simp

theorem processImage_keeps_partial_results_witness:
  "generatedImages (fst (processImage (answering failing_run) ''AAAA'' ''image/png'' uploaded
      \<lparr>calls = 0, trace = []\<rparr>)) =
     [\<lparr>src = ''data:image/png;base64,AAA1'', prompt = ''front view of it''\<rparr>]
   \<and> app_state.status (fst (processImage (answering failing_run) ''AAAA'' ''image/png'' uploaded
      \<lparr>calls = 0, trace = []\<rparr>)) = ''Failed''
   \<and> snd (processImage (answering failing_run) ''AAAA'' ''image/png'' uploaded
      \<lparr>calls = 0, trace = []\<rparr>) = \<lparr>calls = 3, trace = [Invoke, Invoke, Invoke]\<rparr>"
  using processImage_keeps_partial_results
          [where k = 1 and e = "answering failing_run" and base64Image = "''AAAA''"
             and mimeType' = "''image/png''" and st = uploaded and w = "\<lparr>calls = 0, trace = []\<rparr>"
             and prompts = "[''front view of it'', ''side view of it'', ''top view of it!'']"
             and ws = "\<lambda>j. \<lparr>calls = Suc j, trace = replicate (Suc j) Invoke\<rparr>"
             and imgs = "\<lambda>j. ''data:image/png;base64,AAA1''"
             and err = "new_Error ''429 RESOURCE_EXHAUSTED''"
             and w' = "\<lparr>calls = 3, trace = [Invoke, Invoke, Invoke]\<rparr>"]
    failing_run_prompts failing_run_view1 failing_run_view2
  by (simp add: numeral_2_eq_2)

end
